theory Spec2Isabelle
  imports Complex_Main
begin

section \<open>Music Analyzer: the embedding of music_analyzer.py\<close>

text \<open>
  The program is a Tk window with two buttons. ``Load Music File'' runs \<open>load_file\<close>,
  which asks for a path and hands it to \<open>analyze_file\<close>; ``Exit'' runs \<open>close_app\<close>.
  Everything the program touches outside its own text (the file dialog, librosa, numpy,
  matplotlib, the file system, the console, the Tk root window) is made explicit: the
  mutable part is the record \<open>world\<close>, the behaviour of the libraries on a given file is
  the record \<open>env\<close>.
\<close>

subsection \<open>Exceptions\<close>

text \<open>
  Both handlers of \<open>analyze_file\<close> are \<open>except Exception as e\<close> and only format the
  exception into the message, so an exception is modelled by the text \<open>str(e)\<close>.
\<close>

datatype exn = Exception string

fun str :: "exn \<Rightarrow> string" where
  "str (Exception m) = m"

subsection \<open>The figure, as the method calls made on it\<close>

datatype ax_call =
    Waveshow
  | Specshow "string list"
  | SetKw "(string \<times> string) list"
  | TitleColor string
  | XLabelColor string
  | YLabelColor string
  | TextAt string
  | Plot "string list"
  | Bar "string list" "real list" "string list"
  | BarText nat string
  | LabelOuter
  | SetFacecolor string
  | SetXlabel string
  | SetYlabel string
  | Legend "string list"

datatype fig_call =
    Suptitle string
  | Colorbar "nat \<times> nat" string

record figure =
  nrows :: nat
  ncols :: nat
  facecolor :: string
  created_dark :: bool
  fig_calls :: "fig_call list"
  ax :: "nat \<times> nat \<Rightarrow> ax_call list"

subsection \<open>The mutable world\<close>

datatype window = Open | Destroyed

record world =
  console :: "string list"
  files :: "string \<rightharpoonup> string"
  root :: window
  dark_style :: bool
  figures :: "figure list"
  canvases :: nat

subsection \<open>The libraries, on one file\<close>

text \<open>
  \<open>load\<close> is \<open>librosa.load\<close>: the samples and the sample rate, or the exception it raises.
  \<open>raises p n\<close> is the exception, if any, that the library calls of source line \<open>n\<close> raise
  when the program analyses the file at path \<open>p\<close>. \<open>stft\<close> is \<open>librosa.stft\<close>, one row per
  frequency bin. \<open>tempo_text\<close> is the tempo formatted by \<open>{tempo:.2f}\<close>, and \<open>render\<close> is the
  image that \<open>plt.savefig\<close> produces for a figure.
\<close>

record env =
  load :: "string \<Rightarrow> exn + (real list \<times> nat)"
  raises :: "string \<Rightarrow> nat \<Rightarrow> exn option"
  stft :: "real list \<Rightarrow> complex list list"
  tempo_text :: "string \<Rightarrow> string"
  render :: "string \<Rightarrow> figure \<Rightarrow> string"

subsection \<open>os.path.basename and os.path.splitext (posixpath)\<close>

fun rfind_from :: "char \<Rightarrow> string \<Rightarrow> int \<Rightarrow> int \<Rightarrow> int" where
  "rfind_from c [] i found = found"
| "rfind_from c (x # xs) i found = rfind_from c xs (i + 1) (if x = c then i else found)"

definition rfind :: "char \<Rightarrow> string \<Rightarrow> int" where
  "rfind c p = rfind_from c p 0 (- 1)"

definition basename :: "string \<Rightarrow> string" where
  "basename p = (let i = rfind (CHR ''/'') p + 1 in drop (nat i) p)"

function skip_dots :: "string \<Rightarrow> int \<Rightarrow> int \<Rightarrow> bool" where
  "skip_dots p filenameIndex dotIndex =
     (if filenameIndex < dotIndex
      then (if take 1 (drop (nat filenameIndex) p) \<noteq> ''.'' then True
            else skip_dots p (filenameIndex + 1) dotIndex)
      else False)"
  by pat_completeness auto
termination
  by (relation "measure (\<lambda>(p, f, d). nat (d - f))") auto

definition splitext :: "string \<Rightarrow> string \<times> string" where
  "splitext p =
     (let sepIndex = rfind (CHR ''/'') p;
          dotIndex = rfind (CHR ''.'') p
      in if dotIndex > sepIndex \<and> skip_dots p (sepIndex + 1) dotIndex
         then (take (nat dotIndex) p, drop (nat dotIndex) p)
         else (p, []))"

definition output_file :: "string \<Rightarrow> string" where
  "output_file file_path = fst (splitext (basename file_path)) @ ''.png''"

subsection \<open>Statements and their effects\<close>

text \<open>
  A statement either returns, leaving a new world, or raises, leaving the world that the
  statements before it built: an exception does not undo what was already drawn.
\<close>

datatype outcome = Returned world | Raised exn world

type_synonym step = "world \<Rightarrow> outcome"

definition stmt :: "env \<Rightarrow> string \<Rightarrow> nat \<Rightarrow> (world \<Rightarrow> world) \<Rightarrow> step" where
  "stmt E p n eff w = (case raises E p n of Some e \<Rightarrow> Raised e w | None \<Rightarrow> Returned (eff w))"

fun seq :: "step list \<Rightarrow> step" where
  "seq [] w = Returned w"
| "seq (s # ss) w = (case s w of Raised e w' \<Rightarrow> Raised e w' | Returned w' \<Rightarrow> seq ss w')"

definition new_figure :: "nat \<Rightarrow> nat \<Rightarrow> string \<Rightarrow> bool \<Rightarrow> figure" where
  "new_figure r c face dark =
     \<lparr>nrows = r, ncols = c, facecolor = face, created_dark = dark,
      fig_calls = [], ax = (\<lambda>ij. [])\<rparr>"

text \<open>\<open>plt.subplots\<close> registers the new figure with pyplot and makes it the current one;
  the registry is kept newest first.\<close>

definition subplots :: "nat \<Rightarrow> nat \<Rightarrow> string \<Rightarrow> world \<Rightarrow> world" where
  "subplots r c face w = w\<lparr>figures := new_figure r c face (dark_style w) # figures w\<rparr>"

definition style_use_dark :: "world \<Rightarrow> world" where
  "style_use_dark w = w\<lparr>dark_style := True\<rparr>"

definition on_fig :: "(figure \<Rightarrow> figure) \<Rightarrow> world \<Rightarrow> world" where
  "on_fig f w = (case figures w of [] \<Rightarrow> w | g # gs \<Rightarrow> w\<lparr>figures := f g # gs\<rparr>)"

definition fig_do :: "fig_call \<Rightarrow> world \<Rightarrow> world" where
  "fig_do c = on_fig (\<lambda>g. g\<lparr>fig_calls := fig_calls g @ [c]\<rparr>)"

definition ax_do :: "nat \<times> nat \<Rightarrow> ax_call \<Rightarrow> world \<Rightarrow> world" where
  "ax_do ij c = on_fig (\<lambda>g. g\<lparr>ax := (ax g)(ij := ax g ij @ [c])\<rparr>)"

definition pack_canvas :: "world \<Rightarrow> world" where
  "pack_canvas w = w\<lparr>canvases := canvases w + 1\<rparr>"

definition print :: "string \<Rightarrow> world \<Rightarrow> world" where
  "print line w = w\<lparr>console := console w @ [line]\<rparr>"

text \<open>\<open>plt.savefig\<close> writes the current figure; pyplot makes an empty one when there is
  none. An existing file of that name is replaced.\<close>

definition gcf :: "world \<Rightarrow> figure" where
  "gcf w = (case figures w of [] \<Rightarrow> new_figure 0 0 ''white'' (dark_style w) | g # gs \<Rightarrow> g)"

definition savefig :: "env \<Rightarrow> string \<Rightarrow> string \<Rightarrow> world \<Rightarrow> world" where
  "savefig E p name w =
     (let w1 = (if figures w = [] then w\<lparr>figures := [gcf w]\<rparr> else w)
      in w1\<lparr>files := (files w1)(name \<mapsto> render E p (gcf w1))\<rparr>)"

text \<open>\<open>close_app\<close>: \<open>root.quit()\<close> then \<open>root.destroy()\<close>. Tk raises when the
  application is already destroyed.\<close>

definition close_app :: step where
  "close_app w =
     (if root w = Destroyed
      then Raised (Exception ''application has been destroyed'') w
      else Returned (w\<lparr>root := Destroyed\<rparr>))"

subsection \<open>numpy and librosa on real matrices\<close>

text \<open>
  A spectrogram is a matrix with one row per frequency bin and one column per frame.
  The library functions are written out after their definitions in numpy and librosa,
  over the reals: rounding is not modelled.
\<close>

type_synonym matrix = "real list list"

definition np_abs :: "complex list list \<Rightarrow> matrix" where
  "np_abs S = map (map cmod) S"

text \<open>\<open>np.max\<close> of an array without elements raises ValueError.\<close>

definition np_max :: "matrix \<Rightarrow> exn + real" where
  "np_max M =
     (case concat M of
        [] \<Rightarrow> Inl (Exception ''zero-size array to reduction operation maximum which has no identity'')
      | x # xs \<Rightarrow> Inr (fold max xs x))"

definition np_mean :: "matrix \<Rightarrow> real" where
  "np_mean M = sum_list (concat M) / real (length (concat M))"

text \<open>\<open>S[mask]\<close> with a boolean mask keeps the rows where the mask is true; numpy raises
  IndexError when the mask is not as long as the first axis.\<close>

definition index_rows :: "matrix \<Rightarrow> bool list \<Rightarrow> exn + matrix" where
  "index_rows S msk =
     (if length msk \<noteq> length S
      then Inl (Exception ''boolean index did not match indexed array along axis 0'')
      else Inr (map fst (filter snd (zip S msk))))"

text \<open>\<open>librosa.fft_frequencies(sr=sr)\<close> with the default \<open>n_fft = 2048\<close> is
  \<open>np.fft.rfftfreq(2048, 1.0 / sr)\<close>: the bins \<open>0 .. 1024\<close> times \<open>1 / (2048 * (1 / sr))\<close>.\<close>

definition n_fft :: nat where
  "n_fft = 2048"

definition fft_frequencies :: "nat \<Rightarrow> exn + real list" where
  "fft_frequencies sr =
     (if sr = 0 then Inl (Exception ''float division by zero'')
      else Inr (map (\<lambda>k. real k * (1 / (real n_fft * (1 / real sr)))) [0..<n_fft div 2 + 1]))"

text \<open>\<open>librosa.power_to_db\<close> with a number as reference, and \<open>librosa.amplitude_to_db\<close>
  with a callable one, as the program calls it (\<open>ref=np.max\<close>, and the defaults
  \<open>amin = 1e-5\<close>, \<open>top_db = 80.0\<close>).\<close>

definition power_to_db :: "matrix \<Rightarrow> real \<Rightarrow> real \<Rightarrow> real \<Rightarrow> exn + matrix" where
  "power_to_db S ref amin top_db =
     (if amin \<le> 0 then Inl (Exception ''amin must be strictly positive'')
      else
        let ref_value = \<bar>ref\<bar>;
            log_spec = map (map (\<lambda>x. 10 * log 10 (max amin x) - 10 * log 10 (max amin ref_value))) S
        in if top_db < 0 then Inl (Exception ''top_db must be non-negative'')
           else (case np_max log_spec of
                   Inl e \<Rightarrow> Inl e
                 | Inr m \<Rightarrow> Inr (map (map (\<lambda>x. max x (m - top_db))) log_spec)))"

definition amplitude_to_db :: "matrix \<Rightarrow> (matrix \<Rightarrow> exn + real) \<Rightarrow> exn + matrix" where
  "amplitude_to_db S ref =
     (let magnitude = map (map abs) S
      in case ref magnitude of
           Inl e \<Rightarrow> Inl e
         | Inr ref_value \<Rightarrow>
             power_to_db (map (map (\<lambda>x. x ^ 2)) magnitude) (ref_value ^ 2) ((1 / 100000) ^ 2) 80)"

subsection \<open>Frequency balance (source lines 98 to 102)\<close>

definition bass_mask :: "real list \<Rightarrow> bool list" where
  "bass_mask freqs = map (\<lambda>f. f > 0 \<and> f < 150) freqs"

definition mid_mask :: "real list \<Rightarrow> bool list" where
  "mid_mask freqs = map (\<lambda>f. f \<ge> 150 \<and> f < 2000) freqs"

definition treble_mask :: "real list \<Rightarrow> bool list" where
  "treble_mask freqs = map (\<lambda>f. f \<ge> 2000) freqs"

text \<open>One band: \<open>np.mean(librosa.amplitude_to_db(S[mask], ref=np.max))\<close>.\<close>

definition band :: "matrix \<Rightarrow> bool list \<Rightarrow> exn + real" where
  "band S msk =
     (case index_rows S msk of
        Inl e \<Rightarrow> Inl e
      | Inr X \<Rightarrow> (case amplitude_to_db X np_max of
                    Inl e \<Rightarrow> Inl e
                  | Inr db \<Rightarrow> Inr (np_mean db)))"

definition bands :: "matrix \<Rightarrow> real list \<Rightarrow> exn + real \<times> real \<times> real" where
  "bands S freqs =
     (case band S (bass_mask freqs) of
        Inl e \<Rightarrow> Inl e
      | Inr bass \<Rightarrow>
          (case band S (mid_mask freqs) of
             Inl e \<Rightarrow> Inl e
           | Inr mid \<Rightarrow>
               (case band S (treble_mask freqs) of
                  Inl e \<Rightarrow> Inl e
                | Inr treble \<Rightarrow> Inr (bass, mid, treble))))"

definition frequency_balance :: "matrix \<Rightarrow> nat \<Rightarrow> exn + real \<times> real \<times> real" where
  "frequency_balance S sr =
     (case fft_frequencies sr of Inl e \<Rightarrow> Inl e | Inr freqs \<Rightarrow> bands S freqs)"

subsection \<open>analyze_file, line by line\<close>

text \<open>
  A statement of the \<open>try\<close> block is a pair of its source line and its effect on the
  world. Running it raises what the libraries raise at that line (\<open>raises E p n\<close>) and
  otherwise applies the effect. Lines that only compute a value have the effect \<open>id\<close>.
\<close>

type_synonym stmts = "(nat \<times> (world \<Rightarrow> world)) list"

definition run :: "env \<Rightarrow> string \<Rightarrow> stmts \<Rightarrow> step" where
  "run E p xs = seq (map (\<lambda>(n, eff). stmt E p n eff) xs)"

definition white_labels :: "nat \<Rightarrow> nat \<times> nat \<Rightarrow> stmts" where
  "white_labels n ij =
     [(n, ax_do ij (TitleColor ''white'')),
      (n + 1, ax_do ij (XLabelColor ''white'')),
      (n + 2, ax_do ij (YLabelColor ''white''))]"

text \<open>Lines 33 to 38.\<close>

definition create_figure :: "string \<Rightarrow> stmts" where
  "create_figure p =
     [(33, subplots 5 2 ''#2E2E2E''),
      (34, style_use_dark),
      (38, fig_do (Suptitle (basename p)))]"

text \<open>Lines 41 to 45.\<close>

definition plot_waveform :: stmts where
  "plot_waveform =
     [(41, ax_do (0, 0) Waveshow),
      (42, ax_do (0, 0)
        (SetKw [(''title'', ''Waveform''), (''xlabel'', ''Time (s)''), (''ylabel'', ''Amplitude'')]))]
     @ white_labels 43 (0, 0)"

text \<open>Lines 48 to 54.\<close>

definition plot_spectrogram :: stmts where
  "plot_spectrogram =
     [(48, id),
      (49, ax_do (0, 1) (Specshow [''x_axis=time'', ''y_axis=log'', ''cmap=magma''])),
      (50, ax_do (0, 1)
        (SetKw [(''title'', ''Spectrogram''), (''xlabel'', ''Time (s)''),
                (''ylabel'', ''Frequency (Hz)'')]))]
     @ white_labels 51 (0, 1) @
     [(54, fig_do (Colorbar (0, 1) ''%+2.0f dB''))]"

text \<open>Lines 57 to 60.\<close>

definition show_tempo :: "env \<Rightarrow> string \<Rightarrow> stmts" where
  "show_tempo E p =
     [(57, id),
      (58, ax_do (1, 0) (TextAt (''Tempo: '' @ tempo_text E p @ '' BPM''))),
      (59, ax_do (1, 0)
        (SetKw [(''title'', ''Tempo''), (''xticks'', ''[]''), (''yticks'', ''[]'')])),
      (60, ax_do (1, 0) (TitleColor ''white''))]"

text \<open>Lines 63 to 69.\<close>

definition plot_mfcc :: stmts where
  "plot_mfcc =
     [(63, id),
      (64, ax_do (1, 1) (Specshow [''x_axis=time'', ''cmap=magma''])),
      (65, ax_do (1, 1)
        (SetKw [(''title'', ''MFCC''), (''xlabel'', ''Time (s)''),
                (''ylabel'', ''MFCC Coefficients'')]))]
     @ white_labels 66 (1, 1) @
     [(69, fig_do (Colorbar (1, 1) []))]"

text \<open>Lines 72 to 78.\<close>

definition plot_chroma :: stmts where
  "plot_chroma =
     [(72, id),
      (73, ax_do (2, 0) (Specshow [''x_axis=time'', ''y_axis=chroma'', ''cmap=magma''])),
      (74, ax_do (2, 0)
        (SetKw [(''title'', ''Chroma Feature''), (''xlabel'', ''Time (s)'')]))]
     @ white_labels 75 (2, 0) @
     [(78, fig_do (Colorbar (2, 0) []))]"

text \<open>Lines 81 to 86.\<close>

definition plot_zcr :: stmts where
  "plot_zcr =
     [(81, id),
      (82, ax_do (2, 1) (Plot [''color=cyan''])),
      (83, ax_do (2, 1)
        (SetKw [(''title'', ''Zero Crossing Rate''), (''xlabel'', ''Frames''),
                (''ylabel'', ''Rate'')]))]
     @ white_labels 84 (2, 1)"

text \<open>Lines 89 to 95.\<close>

definition plot_onset :: stmts where
  "plot_onset =
     [(89, id),
      (90, id),
      (91, ax_do (3, 0) (Plot [''label=Onset strength'', ''color=white''])),
      (92, ax_do (3, 0)
        (SetKw [(''title'', ''Noise and Distortion Detection''), (''xlabel'', ''Time (s)''),
                (''ylabel'', ''Onset Strength'')]))]
     @ white_labels 93 (3, 0)"

text \<open>Lines 98 to 103: the band energies and their bar chart.\<close>

definition band_labels :: "string list" where
  "band_labels = [''Bass'', ''Midrange'', ''Treble'']"

definition bar_chart :: "real \<times> real \<times> real \<Rightarrow> stmts" where
  "bar_chart v =
     (case v of (bass, mid, treble) \<Rightarrow>
        [(103, ax_do (3, 1) (Bar band_labels [bass, mid, treble] [''blue'', ''green'', ''red'']))])"

definition frequency_balance_step :: "env \<Rightarrow> string \<Rightarrow> real list \<Rightarrow> nat \<Rightarrow> step" where
  "frequency_balance_step E p y sr w =
     (case raises E p 98 of
        Some e \<Rightarrow> Raised e w
      | None \<Rightarrow>
          (case frequency_balance (np_abs (stft E y)) sr of
             Inl e \<Rightarrow> Raised e w
           | Inr v \<Rightarrow> run E p (bar_chart v) w))"

text \<open>Lines 106 to 111: the loop over the three bars; its body also sets the title.\<close>

definition bar_label_loop :: stmts where
  "bar_label_loop =
     concat (map (\<lambda>(k, label).
        [(107, ax_do (3, 1) (BarText k label)),
         (109, ax_do (3, 1)
           (SetKw [(''title'', ''Frequency Balance''), (''ylabel'', ''Amplitude (dB)'')])),
         (110, ax_do (3, 1) (TitleColor ''white'')),
         (111, ax_do (3, 1) (YLabelColor ''white''))])
       (zip [0, 1, 2] band_labels))"

text \<open>Lines 114 to 119.\<close>

definition plot_centroid :: stmts where
  "plot_centroid =
     [(114, id),
      (115, ax_do (4, 0) (Plot [''color=white''])),
      (116, ax_do (4, 0)
        (SetKw [(''title'', ''Spectral Centroid (Timbre)''), (''xlabel'', ''Time (s)''),
                (''ylabel'', ''Hz'')]))]
     @ white_labels 117 (4, 0)"

text \<open>Lines 123 to 129. \<open>ax.flat\<close> is the grid in row-major order.\<close>

definition ax_flat :: "nat \<Rightarrow> nat \<Rightarrow> (nat \<times> nat) list" where
  "ax_flat r c = concat (map (\<lambda>i. map (\<lambda>j. (i, j)) [0..<c]) [0..<r])"

definition display_in_gui :: stmts where
  "display_in_gui =
     concat (map (\<lambda>a.
        [(124, ax_do a LabelOuter),
         (125, ax_do a (SetFacecolor ''#2E2E2E''))])
       (ax_flat 5 2))
     @ [(127, id), (128, id), (129, pack_canvas)]"

text \<open>Lines 132 to 139.\<close>

definition tidy_labels :: stmts where
  "tidy_labels =
     concat (map (\<lambda>i.
        [(133, ax_do (i, 0) (SetXlabel [])),
         (134, ax_do (i, 1) (SetXlabel []))])
       [0, 1, 2, 3])
     @ [(137, ax_do (2, 1) (SetYlabel ''Rate'')),
        (138, ax_do (2, 1) (SetXlabel ''Frames'')),
        (139, ax_do (2, 1) (Legend [''Zero Crossing Rate'']))]"

text \<open>Lines 142 to 145.\<close>

definition completion_message :: string where
  "completion_message =
     ''Analysis complete. The plot has been saved as '' @ [CHR 0x27] @
     ''music_analysis_plot.png'' @ [CHR 0x27] @ ''.''"

definition save_figure :: "env \<Rightarrow> string \<Rightarrow> stmts" where
  "save_figure E p =
     [(143, savefig E p (output_file p)),
      (145, print completion_message)]"

text \<open>The statements before and after the band energies.\<close>

definition first_panels :: "env \<Rightarrow> string \<Rightarrow> stmts" where
  "first_panels E p =
     create_figure p @ plot_waveform @ plot_spectrogram @ show_tempo E p @ plot_mfcc
     @ plot_chroma @ plot_zcr @ plot_onset"

definition last_panels :: "env \<Rightarrow> string \<Rightarrow> stmts" where
  "last_panels E p =
     bar_label_loop @ plot_centroid @ display_in_gui @ tidy_labels @ save_figure E p"

text \<open>The \<open>try\<close> block of lines 31 to 147.\<close>

definition analysis :: "env \<Rightarrow> string \<Rightarrow> real list \<Rightarrow> nat \<Rightarrow> step" where
  "analysis E p y sr =
     seq [run E p (first_panels E p),
          frequency_balance_step E p y sr,
          run E p (last_panels E p),
          close_app]"

definition analyze_file :: "env \<Rightarrow> string \<Rightarrow> world \<Rightarrow> world" where
  "analyze_file E file_path w =
     (case load E file_path of
        Inl e \<Rightarrow> print (''Error loading file: '' @ str e) w
      | Inr (y, sr) \<Rightarrow>
          (case analysis E file_path y sr w of
             Raised e w' \<Rightarrow> print (''Error analyzing file: '' @ str e) w'
           | Returned w' \<Rightarrow> w'))"

text \<open>\<open>load_file\<close>: the argument is what \<open>filedialog.askopenfilename()\<close> returned; a
  cancelled dialog returns the empty string.\<close>

definition load_file :: "env \<Rightarrow> string \<Rightarrow> world \<Rightarrow> world" where
  "load_file E file_path w = (if file_path \<noteq> [] then analyze_file E file_path w else w)"

subsection \<open>The window and its event loop\<close>

datatype event = LoadClicked string | ExitClicked

text \<open>A button callback. Tk reports an exception that escapes a callback and goes on.\<close>

fun handle :: "env \<Rightarrow> event \<Rightarrow> world \<Rightarrow> world" where
  "handle E (LoadClicked chosen) w = load_file E chosen w"
| "handle E ExitClicked w = (case close_app w of Returned w' \<Rightarrow> w' | Raised e w' \<Rightarrow> w')"

text \<open>\<open>root.mainloop()\<close> dispatches clicks while the window exists.\<close>

fun mainloop :: "env \<Rightarrow> event list \<Rightarrow> world \<Rightarrow> world" where
  "mainloop E [] w = w"
| "mainloop E (ev # evs) w = (if root w = Destroyed then w else mainloop E evs (handle E ev w))"

text \<open>The state at launch, over the files already in the working directory.\<close>

definition launch :: "(string \<rightharpoonup> string) \<Rightarrow> world" where
  "launch fs = \<lparr>console = [], files = fs, root = Open, dark_style = False,
                figures = [], canvases = 0\<rparr>"

subsection \<open>Concrete inputs\<close>

text \<open>An unreadable file: \<open>librosa.load\<close> raises on every path.\<close>

definition E_unreadable :: env where
  "E_unreadable =
     \<lparr>load = (\<lambda>p. Inl (Exception ''NoBackendError'')),
      raises = (\<lambda>p n. None),
      stft = (\<lambda>y. []),
      tempo_text = (\<lambda>p. []),
      render = (\<lambda>p g. [])\<rparr>"

section \<open>Properties\<close>

subsection \<open>The file dialog\<close>

text \<open>
  C8. When the user cancels the file dialog, \<open>askopenfilename\<close> returns the empty path
  and \<open>load_file\<close> does nothing: the world after the click is the world before it, so
  nothing is decoded, analysed, written or printed and the window stays as it was.
\<close>

theorem cancel_takes_no_action:
  "load_file E [] w = w \<and> handle E (LoadClicked []) w = w"
  by (simp add: load_file_def)

subsection \<open>Decode failure\<close>

text \<open>
  C3. When \<open>librosa.load\<close> raises on the chosen path, \<open>analyze_file\<close> only appends the
  line ``Error loading file: ...'' to the console: no file is written, no figure is
  created, the window stays open and nothing else changes.
\<close>

theorem decode_failure_only_prints:
  assumes "load E p = Inl e"
  shows "analyze_file E p w = w\<lparr>console := console w @ [''Error loading file: '' @ str e]\<rparr>"
  using assms by (simp add: analyze_file_def print_def)

theorem decode_failure_only_prints_witness:
  "load E_unreadable ''/tmp/notes.txt'' = Inl (Exception ''NoBackendError'')
   \<and> analyze_file E_unreadable ''/tmp/notes.txt'' (launch Map.empty)
       = (launch Map.empty)\<lparr>console := console (launch Map.empty)
            @ [''Error loading file: '' @ str (Exception ''NoBackendError'')]\<rparr>"
  using decode_failure_only_prints [of E_unreadable "''/tmp/notes.txt''" "Exception ''NoBackendError''" "launch Map.empty"]
  by (simp add: E_unreadable_def)

end
